theory Spec2Isabelle
  imports Complex_Main "HOL-Library.AList"
begin

section \<open>Python values that travel through the pipeline\<close>

text \<open>
  The programs move untyped Python objects from a CSV file to the index. The values that
  occur are modelled by one datatype. Instances of \<^verbatim>\<open>datetime\<close> are kept apart: pandas'
  \<^verbatim>\<open>NaT\<close> is an instance of \<^verbatim>\<open>datetime\<close> (class \<^verbatim>\<open>NaTType\<close> derives from it), like
  \<^verbatim>\<open>pd.Timestamp\<close>. The only format used is \<^verbatim>\<open>%d%m%Y\<close>, so every timestamp is a
  calendar day at midnight.
\<close>

datatype datetime =
    Timestamp nat nat nat  \<comment> \<open>year, month, day; time of day 00:00:00\<close>
  | NaT

datatype np_generic = NpInt int | NpFloat real | NpBool bool | NpNaN

datatype pyval =
    PNone
  | PNaN  \<comment> \<open>the float not-a-number, \<^verbatim>\<open>np.nan\<close>\<close>
  | PBool bool
  | PInt int
  | PFloat real  \<comment> \<open>a float that is a number\<close>
  | PStr string
  | PDatetime datetime
  | PNumpy np_generic  \<comment> \<open>a numpy scalar, instance of \<^verbatim>\<open>np.generic\<close>\<close>
  | PDict "(string \<times> pyval) list"

datatype py_error =
    KeyError string
  | AttributeError
  | FileNotFoundError
  | UnicodeDecodeError
  | ParserError
  | TransportError
  | NotFoundError
  | RequestError

datatype exit = SystemExit int

type_synonym doc = "(string \<times> pyval) list"

subsection \<open>Rendering numbers\<close>

definition digit_char :: "nat \<Rightarrow> char" where
  "digit_char n = ''0123456789'' ! (n mod 10)"

fun str_nat :: "nat \<Rightarrow> string" where
  "str_nat n = (if n < 10 then [digit_char n] else str_nat (n div 10) @ [digit_char n])"

declare str_nat.simps [simp del]

definition str_int :: "int \<Rightarrow> string" where
  "str_int i = (if i < 0 then CHR ''-'' # str_nat (nat (- i)) else str_nat (nat i))"

definition zfill :: "nat \<Rightarrow> string \<Rightarrow> string" where
  "zfill w s = replicate (w - length s) CHR ''0'' @ s"

subsection \<open>\<^verbatim>\<open>pd.to_datetime(..., format="%d%m%Y", errors='coerce')\<close>\<close>

text \<open>
  The format is compiled to the regular expression
  \<^verbatim>\<open>(?P<d>3[0-1]|[1-2]\d|0[1-9]|[1-9]| [1-9])(?P<m>1[0-2]|0[1-9]|[1-9])(?P<Y>\d\d\d\d)\<close>
  and matched at the start of the text with backtracking. Each group is modelled by the
  list of its possible matches, in the order the alternatives are tried, each with the
  rest of the text. (Digits are the ASCII digits.)
\<close>

definition is_digit :: "char \<Rightarrow> bool" where
  "is_digit c = (c \<in> set ''0123456789'')"

definition digit_val :: "char \<Rightarrow> nat" where
  "digit_val c = (case map_of (zip ''0123456789'' [0, 1, 2, 3, 4, 5, 6, 7, 8, 9]) c of
                    Some n \<Rightarrow> n | None \<Rightarrow> 0)"

definition is_digit19 :: "char \<Rightarrow> bool" where
  "is_digit19 c = (c \<in> set ''123456789'')"

definition day_alts :: "string \<Rightarrow> (nat \<times> string) list" where
  "day_alts s =
     (case s of
        a # b # r \<Rightarrow>
          (if a = CHR ''3'' \<and> (b = CHR ''0'' \<or> b = CHR ''1'') then [(30 + digit_val b, r)] else []) @
          (if (a = CHR ''1'' \<or> a = CHR ''2'') \<and> is_digit b then [(10 * digit_val a + digit_val b, r)] else []) @
          (if a = CHR ''0'' \<and> is_digit19 b then [(digit_val b, r)] else [])
      | _ \<Rightarrow> []) @
     (case s of a # r \<Rightarrow> if is_digit19 a then [(digit_val a, r)] else [] | _ \<Rightarrow> []) @
     (case s of
        a # b # r \<Rightarrow> if a = CHR '' '' \<and> is_digit19 b then [(digit_val b, r)] else []
      | _ \<Rightarrow> [])"

definition month_alts :: "string \<Rightarrow> (nat \<times> string) list" where
  "month_alts s =
     (case s of
        a # b # r \<Rightarrow>
          (if a = CHR ''1'' \<and> (b = CHR ''0'' \<or> b = CHR ''1'' \<or> b = CHR ''2'') then [(10 + digit_val b, r)] else []) @
          (if a = CHR ''0'' \<and> is_digit19 b then [(digit_val b, r)] else [])
      | _ \<Rightarrow> []) @
     (case s of a # r \<Rightarrow> if is_digit19 a then [(digit_val a, r)] else [] | _ \<Rightarrow> [])"

definition year_alts :: "string \<Rightarrow> (nat \<times> string) list" where
  "year_alts s =
     (case s of
        a # b # c # d # r \<Rightarrow>
          if is_digit a \<and> is_digit b \<and> is_digit c \<and> is_digit d
          then [(1000 * digit_val a + 100 * digit_val b + 10 * digit_val c + digit_val d, r)]
          else []
      | _ \<Rightarrow> [])"

text \<open>
  The first match is taken; text left over after it is an error
  (\<^verbatim>\<open>unconverted data remains\<close>), as is no match at all.
\<close>

definition strptime_dmY :: "string \<Rightarrow> (nat \<times> nat \<times> nat) option" where
  "strptime_dmY s =
     (case concat (map (\<lambda>(d, r1). concat (map (\<lambda>(m, r2). map (\<lambda>(y, r3). (d, m, y, r3)) (year_alts r2))
                                                (month_alts r1)))
                       (day_alts s)) of
        [] \<Rightarrow> None
      | (d, m, y, rest) # _ \<Rightarrow> if rest = [] then Some (d, m, y) else None)"

definition is_leap :: "nat \<Rightarrow> bool" where
  "is_leap y = (y mod 4 = 0 \<and> (0 < y mod 100 \<or> y mod 400 = 0))"

definition days_in_month :: "nat \<Rightarrow> nat \<Rightarrow> nat" where
  "days_in_month y m =
     (if m = 2 then (if is_leap y then 29 else 28)
      else if m = 4 \<or> m = 6 \<or> m = 9 \<or> m = 11 then 30 else 31)"

text \<open>
  A nanosecond timestamp holds the instants from 1677-09-21 00:12:43 to
  2262-04-11 23:47:16; a midnight outside is out of bounds, which
  \<^verbatim>\<open>errors='coerce'\<close> turns into \<^verbatim>\<open>NaT\<close> like every other failure.
\<close>

definition in_bounds :: "nat \<Rightarrow> nat \<Rightarrow> nat \<Rightarrow> bool" where
  "in_bounds y m d =
     ((1677 < y \<or> (y = 1677 \<and> (9 < m \<or> (m = 9 \<and> 22 \<le> d)))) \<and>
      (y < 2262 \<or> (y = 2262 \<and> (m < 4 \<or> (m = 4 \<and> d \<le> 11)))))"

definition parse_date :: "string \<Rightarrow> datetime" where
  "parse_date s =
     (case strptime_dmY s of
        None \<Rightarrow> NaT
      | Some (d, m, y) \<Rightarrow>
          if 1 \<le> d \<and> d \<le> days_in_month y m \<and> in_bounds y m d then Timestamp y m d else NaT)"

text \<open>
  One cell of the column. Text is parsed; a missing value gives \<^verbatim>\<open>NaT\<close>; an integer
  or a boolean is first rendered with \<^verbatim>\<open>str\<close> (so the integer cell 1012020, which is
  what a CSV field \<^verbatim>\<open>01012020\<close> is read as in an all-numeric column, is parsed from the
  text \<^verbatim>\<open>1012020\<close>). How a float cell is converted differs between versions of pandas,
  so that rule is the parameter \<open>fl\<close>. A timestamp stays as it is.
\<close>

fun to_datetime :: "(real \<Rightarrow> datetime) \<Rightarrow> pyval \<Rightarrow> datetime" where
  "to_datetime fl (PStr s) = parse_date s"
| "to_datetime fl (PInt i) = parse_date (str_int i)"
| "to_datetime fl (PBool b) = parse_date (if b then ''True'' else ''False'')"
| "to_datetime fl (PFloat x) = fl x"
| "to_datetime fl (PDatetime t) = t"
| "to_datetime fl (PNumpy (NpInt i)) = parse_date (str_int i)"
| "to_datetime fl (PNumpy (NpFloat x)) = fl x"
| "to_datetime fl (PNumpy (NpBool b)) = parse_date (if b then ''True'' else ''False'')"
| "to_datetime fl (PNumpy NpNaN) = NaT"
| "to_datetime fl PNone = NaT"
| "to_datetime fl PNaN = NaT"
| "to_datetime fl (PDict kvs) = NaT"

subsection \<open>\<^verbatim>\<open>isoformat\<close>, \<^verbatim>\<open>pd.isna\<close>, \<^verbatim>\<open>pd.notna\<close>\<close>

text \<open>\<^verbatim>\<open>NaT.isoformat()\<close> does not raise: it returns the text \<^verbatim>\<open>NaT\<close>.\<close>

fun isoformat :: "datetime \<Rightarrow> string" where
  "isoformat (Timestamp y m d) =
     zfill 4 (str_nat y) @ ''-'' @ zfill 2 (str_nat m) @ ''-'' @ zfill 2 (str_nat d) @ ''T00:00:00''"
| "isoformat NaT = ''NaT''"

fun isna :: "pyval \<Rightarrow> bool" where
  "isna PNone = True"
| "isna PNaN = True"
| "isna (PDatetime NaT) = True"
| "isna (PNumpy NpNaN) = True"
| "isna _ = False"

definition notna :: "pyval \<Rightarrow> bool" where
  "notna v = (\<not> isna v)"

section \<open>\<^verbatim>\<open>index_elastic.py\<close>: normalising the mortality table\<close>

subsection \<open>\<^verbatim>\<open>convert_to_serializable\<close>\<close>

text \<open>
  The three tests are made in the order of the source: \<^verbatim>\<open>isinstance(obj, (datetime,
  pd.Timestamp))\<close> first, \<^verbatim>\<open>isinstance(obj, np.generic)\<close> second (\<^verbatim>\<open>item()\<close> gives the
  Python scalar), \<^verbatim>\<open>pd.isna(obj)\<close> third.
\<close>

fun item :: "np_generic \<Rightarrow> pyval" where
  "item (NpInt i) = PInt i"
| "item (NpFloat x) = PFloat x"
| "item (NpBool b) = PBool b"
| "item NpNaN = PNaN"

fun convert_to_serializable :: "pyval \<Rightarrow> pyval" where
  "convert_to_serializable (PDatetime t) = PStr (isoformat t)"
| "convert_to_serializable (PNumpy g) = item g"
| "convert_to_serializable obj = (if isna obj then PNone else obj)"

subsection \<open>Data frames\<close>

text \<open>
  A frame has its column labels, in order, and its rows; a row gives the cell of every
  label, and only the cells of the frame's own labels mean anything. \<^verbatim>\<open>df[col]\<close> raises
  \<^verbatim>\<open>KeyError\<close> for a label the frame does not have; \<^verbatim>\<open>df[col] = values\<close> overwrites
  the column in place or appends a new one at the end.
\<close>

record frame =
  columns :: "string list"
  rows :: "(string \<Rightarrow> pyval) list"

definition getitem :: "frame \<Rightarrow> string \<Rightarrow> py_error + pyval list" where
  "getitem df col =
     (if col \<in> set (columns df) then Inr (map (\<lambda>r. r col) (rows df)) else Inl (KeyError col))"

definition setitem :: "frame \<Rightarrow> string \<Rightarrow> pyval list \<Rightarrow> frame" where
  "setitem df col vals =
     \<lparr>columns = (if col \<in> set (columns df) then columns df else columns df @ [col]),
      rows = map (\<lambda>(r, v). r(col := v)) (zip (rows df) vals)\<rparr>"

text \<open>\<^verbatim>\<open>df.apply(f, axis=1)\<close>: one value for each row.\<close>

definition apply_rows :: "((string \<Rightarrow> pyval) \<Rightarrow> pyval) \<Rightarrow> frame \<Rightarrow> pyval list" where
  "apply_rows f df = map f (rows df)"

text \<open>\<^verbatim>\<open>Series.apply(f)\<close> with a function that may raise: the first exception ends it.\<close>

fun series_apply :: "('a \<Rightarrow> py_error + 'b) \<Rightarrow> 'a list \<Rightarrow> py_error + 'b list" where
  "series_apply f [] = Inr []"
| "series_apply f (x # xs) =
     (case f x of
        Inl e \<Rightarrow> Inl e
      | Inr y \<Rightarrow> (case series_apply f xs of Inl e \<Rightarrow> Inl e | Inr ys \<Rightarrow> Inr (y # ys)))"

text \<open>\<^verbatim>\<open>df.replace({np.nan: None, pd.NaT: None})\<close>, cell by cell.\<close>

fun replace_cell :: "pyval \<Rightarrow> pyval" where
  "replace_cell PNaN = PNone"
| "replace_cell (PNumpy NpNaN) = PNone"
| "replace_cell (PDatetime NaT) = PNone"
| "replace_cell v = v"

definition replace_missing :: "frame \<Rightarrow> frame" where
  "replace_missing df = df\<lparr>rows := map (\<lambda>r c. replace_cell (r c)) (rows df)\<rparr>"

text \<open>\<^verbatim>\<open>df.to_dict(orient='records')\<close>: one dictionary for each row, keyed by the labels.\<close>

definition to_dict_records :: "frame \<Rightarrow> doc list" where
  "to_dict_records df = map (\<lambda>r. map (\<lambda>c. (c, r c)) (columns df)) (rows df)"

subsection \<open>\<^verbatim>\<open>process_csv\<close>, from the frame that \<^verbatim>\<open>read_csv\<close> returns\<close>

definition date_columns :: "string list" where
  "date_columns = [''DTOBITO'', ''DTNASC'', ''DTATESTADO'', ''DTCADASTRO'', ''DTRECEBIM'']"

text \<open>Lines 45-46: the loop over the date columns. \<^verbatim>\<open>df[col]\<close> is read without a test.\<close>

fun convert_dates :: "(real \<Rightarrow> datetime) \<Rightarrow> string list \<Rightarrow> frame \<Rightarrow> py_error + frame" where
  "convert_dates fl [] df = Inr df"
| "convert_dates fl (col # cols) df =
     (case getitem df col of
        Inl e \<Rightarrow> Inl e
      | Inr s \<Rightarrow> convert_dates fl cols (setitem df col (map (\<lambda>v. PDatetime (to_datetime fl v)) s)))"

text \<open>Lines 49-51: the geo-point of one row, and the guarded assignment.\<close>

definition coordenadas :: "(string \<Rightarrow> pyval) \<Rightarrow> pyval" where
  "coordenadas row =
     (if notna (row ''res_LATITUDE'') \<and> notna (row ''res_LONGITUDE'')
      then PDict [(''lat'', row ''res_LATITUDE''), (''lon'', row ''res_LONGITUDE'')]
      else PNone)"

definition add_coordenadas :: "frame \<Rightarrow> frame" where
  "add_coordenadas df =
     (if ''res_LATITUDE'' \<in> set (columns df) \<and> ''res_LONGITUDE'' \<in> set (columns df)
      then setitem df ''res_coordenadas'' (apply_rows coordenadas df)
      else df)"

text \<open>
  Lines 54-57. The lambda calls \<^verbatim>\<open>x.isoformat()\<close> on whatever the cell is, which
  raises \<^verbatim>\<open>AttributeError\<close> on a value that is no \<^verbatim>\<open>datetime\<close>.
\<close>

definition data_obito_of :: "pyval \<Rightarrow> py_error + pyval" where
  "data_obito_of x =
     (if notna x
      then (case x of PDatetime t \<Rightarrow> Inr (PStr (isoformat t)) | _ \<Rightarrow> Inl AttributeError)
      else Inr PNone)"

definition add_data_obito :: "frame \<Rightarrow> py_error + frame" where
  "add_data_obito df =
     (if ''DTOBITO'' \<in> set (columns df)
      then (case getitem df ''DTOBITO'' of
              Inl e \<Rightarrow> Inl e
            | Inr s \<Rightarrow> (case series_apply data_obito_of s of
                          Inl e \<Rightarrow> Inl e
                        | Inr vals \<Rightarrow> Inr (setitem df ''data_obito'' vals)))
      else Inr (setitem df ''data_obito'' (replicate (length (rows df)) PNone)))"

text \<open>
  Lines 60-61: every column of the frame goes through \<^verbatim>\<open>convert_to_serializable\<close>,
  value by value. (Where pandas, on assigning the result, turns the \<^verbatim>\<open>None\<close> of a column
  of numbers back into \<^verbatim>\<open>NaN\<close>, line 63 makes it \<^verbatim>\<open>None\<close> again; the model keeps the
  \<^verbatim>\<open>None\<close>.)
\<close>

fun serialize_columns :: "string list \<Rightarrow> frame \<Rightarrow> py_error + frame" where
  "serialize_columns [] df = Inr df"
| "serialize_columns (col # cols) df =
     (case getitem df col of
        Inl e \<Rightarrow> Inl e
      | Inr s \<Rightarrow> serialize_columns cols (setitem df col (map convert_to_serializable s)))"

text \<open>Lines 43-65, the body of the \<^verbatim>\<open>try\<close> after the frame has been read.\<close>

definition process_frame :: "(real \<Rightarrow> datetime) \<Rightarrow> frame \<Rightarrow> py_error + doc list" where
  "process_frame fl df =
     (case convert_dates fl date_columns df of
        Inl e \<Rightarrow> Inl e
      | Inr df1 \<Rightarrow>
          (case add_data_obito (add_coordenadas df1) of
             Inl e \<Rightarrow> Inl e
           | Inr df3 \<Rightarrow>
               (case serialize_columns (columns df3) df3 of
                  Inl e \<Rightarrow> Inl e
                | Inr df4 \<Rightarrow> Inr (to_dict_records (replace_missing df4)))))"

text \<open>
  The whole function. The file is opened and read, \<^verbatim>\<open>chardet.detect\<close> gives a
  dictionary of which only \<^verbatim>\<open>'encoding'\<close> is used (it is \<^verbatim>\<open>None\<close> when nothing was
  detected), and \<^verbatim>\<open>pd.read_csv\<close> gets that encoding. The file system, the detector and
  the CSV reader are parameters. Every exception of the body is caught by the one handler,
  which logs it and calls \<^verbatim>\<open>exit(1)\<close>.
\<close>

record detection =
  encoding :: "string option"
  confidence :: real

definition process_csv_try ::
  "(string \<Rightarrow> string option) \<Rightarrow> (string \<Rightarrow> detection) \<Rightarrow>
   (string \<Rightarrow> string option \<Rightarrow> py_error + frame) \<Rightarrow> (real \<Rightarrow> datetime) \<Rightarrow> string \<Rightarrow>
   py_error + doc list" where
  "process_csv_try open_rb detect read_csv fl file_path =
     (case open_rb file_path of
        None \<Rightarrow> Inl FileNotFoundError
      | Some content \<Rightarrow>
          (case read_csv content (encoding (detect content)) of
             Inl e \<Rightarrow> Inl e
           | Inr df \<Rightarrow> process_frame fl df))"

definition process_csv ::
  "(string \<Rightarrow> string option) \<Rightarrow> (string \<Rightarrow> detection) \<Rightarrow>
   (string \<Rightarrow> string option \<Rightarrow> py_error + frame) \<Rightarrow> (real \<Rightarrow> datetime) \<Rightarrow> string \<Rightarrow>
   exit + doc list" where
  "process_csv open_rb detect read_csv fl file_path =
     (case process_csv_try open_rb detect read_csv fl file_path of
        Inl e \<Rightarrow> Inl (SystemExit 1)
      | Inr docs \<Rightarrow> Inr docs)"

section \<open>The index engine\<close>

text \<open>
  The engine is reached through the client object \<^verbatim>\<open>es\<close>. Of its state the programs
  see the indices: each name with the body it was created with. \<^verbatim>\<open>indices.create\<close> on a
  name that exists is refused by the engine (\<^verbatim>\<open>resource_already_exists_exception\<close>),
  \<^verbatim>\<open>indices.delete\<close> on a name that does not exist as well.
\<close>

type_synonym es = "string \<rightharpoonup> pyval"

definition indices_exists :: "es \<Rightarrow> string \<Rightarrow> bool" where
  "indices_exists es index_name = (es index_name \<noteq> None)"

definition indices_delete :: "es \<Rightarrow> string \<Rightarrow> py_error + es" where
  "indices_delete es index_name =
     (if es index_name = None then Inl NotFoundError else Inr (es(index_name := None)))"

definition indices_create :: "es \<Rightarrow> string \<Rightarrow> pyval \<Rightarrow> py_error + es" where
  "indices_create es index_name body =
     (if es index_name = None then Inr (es(index_name \<mapsto> body)) else Inl RequestError)"

subsection \<open>\<^verbatim>\<open>create_index\<close> of \<^verbatim>\<open>index_elastic.py\<close>: the curated mapping\<close>

definition keyword_field :: pyval where
  "keyword_field = PDict [(''type'', PStr ''keyword'')]"

definition integer_field :: pyval where
  "integer_field = PDict [(''type'', PStr ''integer'')]"

definition float_field :: pyval where
  "float_field = PDict [(''type'', PStr ''float'')]"

definition geo_point_field :: pyval where
  "geo_point_field = PDict [(''type'', PStr ''geo_point'')]"

definition date_field :: pyval where
  "date_field = PDict [(''type'', PStr ''date''), (''format'', PStr ''yyyy-MM-dd'T'HH:mm:ss'')]"

definition obitos_properties :: "(string \<times> pyval) list" where
  "obitos_properties =
    [(''ORIGEM'', integer_field), (''TIPOBITO'', integer_field), (''DTOBITO'', date_field),
     (''HORAOBITO'', keyword_field), (''NATURAL'', keyword_field),
     (''CODMUNNATU'', keyword_field), (''DTNASC'', date_field), (''IDADE'', integer_field),
     (''idade_obito_anos'', float_field), (''idade_obito_meses'', integer_field),
     (''idade_obito_dias'', integer_field), (''idade_obito_horas'', integer_field),
     (''idade_obito_mins'', integer_field), (''SEXO'', integer_field),
     (''RACACOR'', integer_field), (''ESTCIV'', integer_field), (''ESC'', integer_field),
     (''ESC2010'', integer_field), (''SERIESCFAL'', keyword_field), (''OCUP'', keyword_field),
     (''CODMUNRES'', keyword_field), (''LOCOCOR'', integer_field),
     (''CODESTAB'', keyword_field), (''ESTABDESCR'', keyword_field),
     (''CODMUNOCOR'', keyword_field), (''IDADEMAE'', integer_field),
     (''ESCMAE'', integer_field), (''ESCMAE2010'', integer_field),
     (''SERIESCMAE'', keyword_field), (''OCUPMAE'', keyword_field),
     (''QTDFILVIVO'', integer_field), (''QTDFILMORT'', integer_field),
     (''GRAVIDEZ'', integer_field), (''SEMAGESTAC'', float_field),
     (''GESTACAO'', keyword_field), (''PARTO'', integer_field),
     (''OBITOPARTO'', integer_field), (''PESO'', float_field), (''TPMORTEOCO'', integer_field),
     (''OBITOGRAV'', integer_field), (''OBITOPUERP'', integer_field),
     (''ASSISTMED'', integer_field), (''EXAME'', integer_field), (''CIRURGIA'', integer_field),
     (''NECROPSIA'', integer_field), (''LINHAA'', keyword_field), (''LINHAB'', keyword_field),
     (''LINHAC'', keyword_field), (''LINHAD'', keyword_field), (''LINHAII'', keyword_field),
     (''CAUSABAS'', keyword_field), (''CB_PRE'', keyword_field),
     (''COMUNSVOIM'', keyword_field), (''DTATESTADO'', date_field),
     (''CIRCOBITO'', integer_field), (''ACIDTRAB'', keyword_field), (''FONTE'', keyword_field),
     (''NUMEROLOTE'', keyword_field), (''TPPOS'', keyword_field),
     (''DTINVESTIG'', keyword_field), (''CAUSABAS_O'', keyword_field),
     (''DTCADASTRO'', date_field), (''ATESTANTE'', keyword_field),
     (''STCODIFICA'', keyword_field), (''CODIFICADO'', keyword_field),
     (''VERSAOSIST'', keyword_field), (''VERSAOSCB'', keyword_field),
     (''FONTEINV'', keyword_field), (''DTRECEBIM'', date_field), (''ATESTADO'', keyword_field),
     (''DTRECORIGA'', keyword_field), (''CAUSAMAT'', keyword_field),
     (''ESCMAEAGR1'', integer_field), (''ESCFALAGR1'', integer_field),
     (''STDOEPIDEM'', keyword_field), (''STDONOVA'', keyword_field),
     (''DIFDATA'', integer_field), (''NUDIASOBCO'', integer_field),
     (''NUDIASOBIN'', integer_field), (''DTCADINV'', keyword_field),
     (''TPOBITOCOR'', integer_field), (''DTCONINV'', keyword_field),
     (''FONTES'', keyword_field), (''TPRESGINFO'', keyword_field),
     (''TPNIVELINV'', keyword_field), (''NUDIASINF'', keyword_field),
     (''DTCADINF'', keyword_field), (''MORTEPARTO'', keyword_field),
     (''DTCONCASO'', keyword_field), (''FONTESINF'', keyword_field),
     (''ALTCAUSA'', keyword_field), (''CONTADOR'', integer_field),
     (''def_tipo_obito'', keyword_field), (''def_sexo'', keyword_field),
     (''def_raca_cor'', keyword_field), (''def_est_civil'', keyword_field),
     (''def_escol'', keyword_field), (''def_loc_ocor'', keyword_field),
     (''def_escol_mae'', keyword_field), (''def_gravidez'', keyword_field),
     (''def_gestacao'', keyword_field), (''def_parto'', keyword_field),
     (''def_obito_parto'', keyword_field), (''def_obito_grav'', keyword_field),
     (''def_obito_puerp'', keyword_field), (''def_assist_med'', keyword_field),
     (''def_exame'', keyword_field), (''def_cirurgia'', keyword_field),
     (''def_necropsia'', keyword_field), (''def_circ_obito'', keyword_field),
     (''def_acid_trab'', keyword_field), (''def_fonte'', keyword_field),
     (''res_MUNNOME'', keyword_field), (''res_MUNNOMEX'', keyword_field),
     (''res_AMAZONIA'', keyword_field), (''res_FRONTEIRA'', keyword_field),
     (''res_CAPITAL'', keyword_field), (''res_MSAUDCOD'', keyword_field),
     (''res_RSAUDCOD'', keyword_field), (''res_CSAUDCOD'', keyword_field),
     (''res_ANOEXT'', keyword_field), (''res_SUCESSOR'', keyword_field),
     (''res_LATITUDE'', float_field), (''res_LONGITUDE'', float_field),
     (''res_ALTITUDE'', integer_field), (''res_AREA'', float_field),
     (''res_codigo_adotado'', keyword_field), (''ocor_MUNNOME'', keyword_field),
     (''ocor_MUNNOMEX'', keyword_field), (''ocor_AMAZONIA'', keyword_field),
     (''ocor_FRONTEIRA'', keyword_field), (''ocor_CAPITAL'', keyword_field),
     (''ocor_MSAUDCOD'', keyword_field), (''ocor_RSAUDCOD'', keyword_field),
     (''ocor_CSAUDCOD'', keyword_field), (''ocor_ANOEXT'', keyword_field),
     (''ocor_SUCESSOR'', keyword_field), (''ocor_LATITUDE'', float_field),
     (''ocor_LONGITUDE'', float_field), (''ocor_ALTITUDE'', integer_field),
     (''ocor_AREA'', float_field), (''ocor_codigo_adotado'', keyword_field),
     (''ocor_SIGLA_UF'', keyword_field), (''ocor_CODIGO_UF'', integer_field),
     (''ocor_NOME_UF'', keyword_field), (''res_SIGLA_UF'', keyword_field),
     (''res_CODIGO_UF'', integer_field), (''res_NOME_UF'', keyword_field),
     (''ocor_REGIAO'', keyword_field), (''res_REGIAO'', keyword_field),
     (''causabas_capitulo'', keyword_field), (''causabas_grupo'', keyword_field),
     (''causabas_categoria'', keyword_field), (''causabas_subcategoria'', keyword_field),
     (''ocor_coordenadas'', geo_point_field), (''res_coordenadas'', geo_point_field),
     (''data_obito'', date_field), (''dia_semana_obito'', keyword_field),
     (''ano_obito'', integer_field), (''data_nasc'', date_field),
     (''dia_semana_nasc'', keyword_field), (''ano_nasc'', integer_field),
     (''idade_obito'', float_field), (''idade_obito_calculado'', float_field)]"

definition obitos_mappings :: pyval where
  "obitos_mappings = PDict [(''mappings'', PDict [(''properties'', PDict obitos_properties)])]"

text \<open>The deletion is made only after \<^verbatim>\<open>indices.exists\<close> has answered yes.\<close>

definition delete_if_exists :: "es \<Rightarrow> string \<Rightarrow> py_error + es" where
  "delete_if_exists es index_name =
     (if indices_exists es index_name then indices_delete es index_name else Inr es)"

definition create_index :: "es \<Rightarrow> string \<Rightarrow> py_error + es" where
  "create_index es index_name =
     (case delete_if_exists es index_name of
        Inl e \<Rightarrow> Inl e
      | Inr es1 \<Rightarrow> indices_create es1 index_name obitos_mappings)"

subsection \<open>\<^verbatim>\<open>create_index\<close> of \<^verbatim>\<open>dadospop.py\<close> and of \<^verbatim>\<open>indexador_streamlit.py\<close>\<close>

text \<open>
  Both build the mapping from the keys of one sample record: \<^verbatim>\<open>dadospop.py\<close> with a loop
  that assigns \<^verbatim>\<open>properties[key]\<close>, \<^verbatim>\<open>indexador_streamlit.py\<close> with a dictionary
  comprehension. A record is the list of its items, in order.
\<close>

definition text_keyword_field :: pyval where
  "text_keyword_field =
     PDict [(''type'', PStr ''text''),
            (''fields'', PDict [(''keyword'', PDict [(''type'', PStr ''keyword''),
                                                     (''ignore_above'', PInt 256)])])]"

definition dict_keys :: "(string \<times> 'v) list \<Rightarrow> string list" where
  "dict_keys d = map fst d"

definition properties_loop :: "(string \<times> 'v) list \<Rightarrow> (string \<times> pyval) list" where
  "properties_loop sample_record =
     fold (\<lambda>key properties. AList.update key text_keyword_field properties)
          (dict_keys sample_record) []"

definition properties_comprehension :: "(string \<times> 'v) list \<Rightarrow> (string \<times> pyval) list" where
  "properties_comprehension sample_record =
     fold (\<lambda>col properties. AList.update col text_keyword_field properties)
          (dict_keys sample_record) []"

definition create_index_dadospop :: "es \<Rightarrow> string \<Rightarrow> (string \<times> 'v) list \<Rightarrow> py_error + es" where
  "create_index_dadospop es index_name sample_record =
     (case delete_if_exists es index_name of
        Inl e \<Rightarrow> Inl e
      | Inr es1 \<Rightarrow>
          indices_create es1 index_name
            (PDict [(''mappings'', PDict [(''properties'', PDict (properties_loop sample_record))])]))"

definition create_index_streamlit :: "es \<Rightarrow> string \<Rightarrow> (string \<times> 'v) list \<Rightarrow> py_error + es" where
  "create_index_streamlit es index_name sample_record =
     (case delete_if_exists es index_name of
        Inl e \<Rightarrow> Inl e
      | Inr es1 \<Rightarrow>
          indices_create es1 index_name
            (PDict [(''mappings'',
                     PDict [(''properties'', PDict (properties_comprehension sample_record))])]))"

section \<open>Bulk submission\<close>

text \<open>
  Modelled from the spec: \<^verbatim>\<open>helpers.bulk\<close> is the bulk helper of the Elasticsearch client
  library, which is not among the sources; the programs call it with
  \<^verbatim>\<open>raise_on_error=False\<close> and read its answer. The spec describes the sink as a
  bulk-document-submit that returns the success count and the list of per-document
  failures, each document succeeding or failing on its own, over one or more batches.
  So: the actions are cut into batches of \<open>chunk_size\<close> (no cut when it is 0; the limit
  on the bytes of a batch is left out); a batch
  that cannot be delivered (\<open>send\<close> is false) raises; otherwise every action of the batch
  gets its verdict, \<open>None\<close> when accepted and the engine's error item when rejected; the
  helper counts the accepted ones and collects the error items in order.
\<close>

type_synonym action = "string \<times> doc"  \<comment> \<open>\<^verbatim>\<open>{"_index": index_name, "_source": doc}\<close>\<close>

function chunker :: "nat \<Rightarrow> 'a list \<Rightarrow> 'a list list" where
  "chunker n xs =
     (if xs = [] then [] else if n = 0 then [xs] else take n xs # chunker n (drop n xs))"
  by pat_completeness auto
termination
  by (relation "measure (\<lambda>(n, xs). length xs)") auto

declare chunker.simps [simp del]

fun streaming_bulk ::
  "(action list \<Rightarrow> bool) \<Rightarrow> (action \<Rightarrow> 'i option) \<Rightarrow> action list list \<Rightarrow> py_error + 'i option list" where
  "streaming_bulk send verdict [] = Inr []"
| "streaming_bulk send verdict (chunk # chunks) =
     (if send chunk
      then (case streaming_bulk send verdict chunks of
              Inl e \<Rightarrow> Inl e
            | Inr items \<Rightarrow> Inr (map verdict chunk @ items))
      else Inl TransportError)"

fun bulk_loop :: "'i option list \<Rightarrow> nat \<times> 'i list \<Rightarrow> nat \<times> 'i list" where
  "bulk_loop [] acc = acc"
| "bulk_loop (None # items) (success, errors) = bulk_loop items (success + 1, errors)"
| "bulk_loop (Some err # items) (success, errors) = bulk_loop items (success, errors @ [err])"

definition bulk ::
  "(action list \<Rightarrow> bool) \<Rightarrow> (action \<Rightarrow> 'i option) \<Rightarrow> nat \<Rightarrow> action list \<Rightarrow> py_error + nat \<times> 'i list" where
  "bulk send verdict chunk_size actions =
     (case streaming_bulk send verdict (chunker chunk_size actions) of
        Inl e \<Rightarrow> Inl e
      | Inr items \<Rightarrow> Inr (bulk_loop items (0, [])))"

subsection \<open>\<^verbatim>\<open>index_data\<close> of \<^verbatim>\<open>index_elastic.py\<close>, \<^verbatim>\<open>index_csv_data\<close> of \<^verbatim>\<open>dadospop.py\<close>\<close>

text \<open>
  What the two functions leave behind: the files they write (a name with the list that
  \<^verbatim>\<open>json.dump\<close> writes into it; opening with \<^verbatim>\<open>"w"\<close> replaces an older file of that
  name) and the lines they log, kept by kind and number. They call the helper with its
  default batch size of 500.
\<close>

datatype event =
    LogFailed nat  \<comment> \<open>error: so many documents failed\<close>
  | LogIndexed nat  \<comment> \<open>info: so many documents indexed\<close>
  | LogException py_error  \<comment> \<open>error: the exception caught\<close>

record 'i world =
  files :: "string \<rightharpoonup> 'i list"
  logged :: "event list"

definition index_data ::
  "(action list \<Rightarrow> bool) \<Rightarrow> (action \<Rightarrow> 'i option) \<Rightarrow> string \<Rightarrow> doc list \<Rightarrow> 'i world \<Rightarrow> 'i world" where
  "index_data send verdict index_name data w =
     (case bulk send verdict 500 (map (\<lambda>doc. (index_name, doc)) data) of
        Inl e \<Rightarrow> w\<lparr>logged := logged w @ [LogException e]\<rparr>
      | Inr response \<Rightarrow>
          (let failed = snd response in
           if failed \<noteq> []
           then w\<lparr>files := (files w)(''failed_docs.json'' \<mapsto> failed),
                  logged := logged w @ [LogFailed (length failed)]\<rparr>
           else w\<lparr>logged := logged w @ [LogIndexed (length data)]\<rparr>))"

definition index_csv_data ::
  "(action list \<Rightarrow> bool) \<Rightarrow> (action \<Rightarrow> 'i option) \<Rightarrow> string \<Rightarrow> doc list \<Rightarrow> 'i world \<Rightarrow> 'i world" where
  "index_csv_data send verdict index_name data w =
     (case bulk send verdict 500 (map (\<lambda>doc. (index_name, doc)) data) of
        Inl e \<Rightarrow> w\<lparr>logged := logged w @ [LogException e]\<rparr>
      | Inr response \<Rightarrow>
          (let failed = snd response in
           if failed \<noteq> []
           then w\<lparr>files := (files w)(''failed_docs_'' @ index_name @ ''.json'' \<mapsto> failed),
                  logged := logged w @ [LogFailed (length failed)]\<rparr>
           else w\<lparr>logged := logged w @ [LogIndexed (length data)]\<rparr>))"

section \<open>\<^verbatim>\<open>parse_csv_file\<close> of \<^verbatim>\<open>dadospop.py\<close>\<close>

text \<open>
  \<^verbatim>\<open>csv.DictReader\<close> over the rows that \<^verbatim>\<open>csv.reader\<close> gives for the file. The first
  row is the header. A row with no field at all (a blank line) is passed over. The other
  rows are zipped with the header; fields beyond the header go, as a list, under the key
  \<^verbatim>\<open>None\<close>, and header names beyond the row get the value \<^verbatim>\<open>None\<close>.
\<close>

datatype csv_value = CsvField string | RestVal | RestFields "string list"

type_synonym raw_record = "(string option \<times> csv_value) list"

definition dict_of :: "('k \<times> 'v) list \<Rightarrow> ('k \<times> 'v) list" where
  "dict_of kvs = fold (\<lambda>(k, v) d. AList.update k v d) kvs []"

definition dict_reader_row :: "string list \<Rightarrow> string list \<Rightarrow> raw_record" where
  "dict_reader_row fieldnames row =
     (let d = dict_of (zip (map Some fieldnames) (map CsvField row));
          lf = length fieldnames;
          lr = length row
      in if lf < lr then AList.update None (RestFields (drop lf row)) d
         else fold (\<lambda>key d. AList.update (Some key) RestVal d) (drop lr fieldnames) d)"

definition dict_reader :: "string list list \<Rightarrow> raw_record list" where
  "dict_reader lines =
     (case lines of
        [] \<Rightarrow> []
      | fieldnames # rest \<Rightarrow> map (dict_reader_row fieldnames) (filter (\<lambda>row. row \<noteq> []) rest))"

definition parse_csv_file ::
  "(string \<Rightarrow> string list list option) \<Rightarrow> string \<Rightarrow> py_error + raw_record list" where
  "parse_csv_file open_csv filepath =
     (case open_csv filepath of
        None \<Rightarrow> Inl FileNotFoundError
      | Some lines \<Rightarrow> Inr (dict_reader lines))"

section \<open>What \<^verbatim>\<open>process_csv\<close> computes, row by row\<close>

text \<open>
  The frame operations work column by column. The same result, read row by row: the
  labels of the result, and the cell of each label in a row.
\<close>

definition upd_cols :: "(pyval \<Rightarrow> pyval) \<Rightarrow> string list \<Rightarrow> (string \<Rightarrow> pyval) \<Rightarrow> string \<Rightarrow> pyval" where
  "upd_cols g cols r = fold (\<lambda>c r. r(c := g (r c))) cols r"

definition has_geo :: "frame \<Rightarrow> bool" where
  "has_geo df = (''res_LATITUDE'' \<in> set (columns df) \<and> ''res_LONGITUDE'' \<in> set (columns df))"

definition geo_columns :: "frame \<Rightarrow> string list" where
  "geo_columns df =
     (if has_geo df \<and> ''res_coordenadas'' \<notin> set (columns df)
      then columns df @ [''res_coordenadas''] else columns df)"

definition out_columns :: "frame \<Rightarrow> string list" where
  "out_columns df =
     (if ''data_obito'' \<in> set (geo_columns df) then geo_columns df
      else geo_columns df @ [''data_obito''])"

definition obito_val :: "datetime \<Rightarrow> pyval" where
  "obito_val t = (case t of NaT \<Rightarrow> PNone | _ \<Rightarrow> PStr (isoformat t))"

definition staged_row :: "(real \<Rightarrow> datetime) \<Rightarrow> frame \<Rightarrow> (string \<Rightarrow> pyval) \<Rightarrow> string \<Rightarrow> pyval" where
  "staged_row fl df r =
     (let r1 = upd_cols (\<lambda>v. PDatetime (to_datetime fl v)) date_columns r;
          r2 = (if has_geo df then r1(''res_coordenadas'' := coordenadas r1) else r1)
      in r2(''data_obito'' := obito_val (to_datetime fl (r ''DTOBITO''))))"

definition out_row :: "(real \<Rightarrow> datetime) \<Rightarrow> frame \<Rightarrow> (string \<Rightarrow> pyval) \<Rightarrow> string \<Rightarrow> pyval" where
  "out_row fl df r c =
     replace_cell (upd_cols convert_to_serializable (out_columns df) (staged_row fl df r) c)"

section \<open>Sample inputs\<close>

text \<open>
  A frame from its labels and the cells of each row, in the order of the labels.
\<close>

definition frame_of :: "string list \<Rightarrow> pyval list list \<Rightarrow> frame" where
  "frame_of cols cells =
     \<lparr>columns = cols,
      rows = map (\<lambda>vals c. case map_of (zip cols vals) c of Some v \<Rightarrow> v | None \<Rightarrow> PNaN) cells\<rparr>"

text \<open>Two rows of dates as text: all readable in the first, none in the second.\<close>

definition frame_dates :: frame where
  "frame_dates =
     frame_of date_columns
       [[PStr ''01012020'', PStr ''01012020'', PStr ''01012020'', PStr ''01012020'', PStr ''01012020''],
        [PStr ''99999999'', PStr ''99999999'', PStr ''99999999'', PStr ''99999999'', PStr ''99999999'']]"

text \<open>
  Two rows as \<^verbatim>\<open>read_csv\<close> gives them for a file in which the date of birth is empty
  in both rows and the age in the second: the columns of digits are integers, an empty
  field is \<^verbatim>\<open>NaN\<close>.
\<close>

definition frame_gaps :: frame where
  "frame_gaps =
     frame_of (date_columns @ [''IDADE''])
       [[PInt 15032019, PNaN, PInt 16032019, PInt 20032019, PInt 21032019, PFloat 465],
        [PInt 12042019, PNaN, PInt 12042019, PInt 15042019, PInt 16042019, PNaN]]"

text \<open>
  Coordinates: a complete pair, a missing latitude, and a latitude that is text (written
  with a decimal comma).
\<close>

definition frame_geo :: frame where
  "frame_geo =
     frame_of (date_columns @ [''res_LATITUDE'', ''res_LONGITUDE''])
       [[PStr ''01012020'', PStr ''01011950'', PStr ''01012020'', PStr ''01012020'', PStr ''01012020'',
         PFloat (-23.55), PFloat (-46.63)],
        [PStr ''01012020'', PStr ''01011950'', PStr ''01012020'', PStr ''01012020'', PStr ''01012020'',
         PNaN, PFloat (-46.63)]]"

definition frame_geo_text :: frame where
  "frame_geo_text =
     frame_of (date_columns @ [''res_LATITUDE'', ''res_LONGITUDE''])
       [[PStr ''01012020'', PStr ''01011950'', PStr ''01012020'', PStr ''01012020'', PStr ''01012020'',
         PStr ''-23,55'', PFloat (-46.63)]]"

text \<open>A frame without the column \<^verbatim>\<open>DTRECEBIM\<close>.\<close>

definition frame_no_dtrecebim :: frame where
  "frame_no_dtrecebim =
     frame_of [''DTOBITO'', ''DTNASC'', ''DTATESTADO'', ''DTCADASTRO'']
       [[PStr ''01012020'', PStr ''01011950'', PStr ''01012020'', PStr ''01012020'']]"

text \<open>
  A file system with the one file \<^verbatim>\<open>dados_obitos.csv\<close>; a detector that answers
  \<^verbatim>\<open>Windows-1252\<close> with confidence 0.3; a reader for which the bytes of the file are
  valid UTF-8 (also the default, for no encoding) and not valid in the code page 1252.
\<close>

definition sample_open :: "string \<Rightarrow> string option" where
  "sample_open path = (if path = ''dados_obitos.csv'' then Some ''DTOBITO,...'' else None)"

definition sample_detect :: "string \<Rightarrow> detection" where
  "sample_detect content = \<lparr>encoding = Some ''Windows-1252'', confidence = 0.3\<rparr>"

definition sample_read_csv :: "string \<Rightarrow> string option \<Rightarrow> py_error + frame" where
  "sample_read_csv content enc =
     (if enc = None \<or> enc = Some ''utf-8'' then Inr frame_dates else Inl UnicodeDecodeError)"

text \<open>A detector that answers \<^verbatim>\<open>utf-8\<close> with confidence 0.99.\<close>

definition sample_detect_utf8 :: "string \<Rightarrow> detection" where
  "sample_detect_utf8 content = \<lparr>encoding = Some ''utf-8'', confidence = 0.99\<rparr>"

definition sample_read_short :: "string \<Rightarrow> string option \<Rightarrow> py_error + frame" where
  "sample_read_short content enc =
     (if enc = None \<or> enc = Some ''utf-8'' then Inr frame_no_dtrecebim else Inl UnicodeDecodeError)"

text \<open>The rows of a small file, with a blank line.\<close>

definition sample_open_csv :: "string \<Rightarrow> string list list option" where
  "sample_open_csv path =
     (if path = ''c2228.csv''
      then Some [[''COD'', ''NOME''], [''35'', ''SP''], [], [''41'', ''PR'']] else None)"

text \<open>An engine that rejects the documents without fields, and one that rejects all.\<close>

definition sample_verdict :: "action \<Rightarrow> string option" where
  "sample_verdict a = (if snd a = [] then Some ''mapper_parsing_exception'' else None)"

definition reject_all :: "action \<Rightarrow> string option" where
  "reject_all a = Some (''rejected in '' @ fst a)"

section \<open>Properties of the normalisation\<close>

subsection \<open>Frames, column by column and row by row\<close>

lemma setitem_rows:
  "setitem df col (map f (rows df)) =
     \<lparr>columns = (if col \<in> set (columns df) then columns df else columns df @ [col]),
      rows = map (\<lambda>r. r(col := f r)) (rows df)\<rparr>"
  by (simp add: setitem_def zip_map2 zip_same_conv_map)

lemma upd_cols_simps [simp]:
  "upd_cols g [] r = r"
  "upd_cols g (c # cols) r = upd_cols g cols (r(c := g (r c)))"
  by (simp_all add: upd_cols_def)

lemma upd_cols_notin: "k \<notin> set cols \<Longrightarrow> upd_cols g cols r k = r k"
  by (induction cols arbitrary: r) auto

lemma convert_dates_ok:
  "set cols \<subseteq> set (columns df) \<Longrightarrow>
   convert_dates fl cols df =
     Inr \<lparr>columns = columns df,
          rows = map (upd_cols (\<lambda>v. PDatetime (to_datetime fl v)) cols) (rows df)\<rparr>"
proof (induction cols arbitrary: df)
  case Nil
  then show ?case by simp
next
  case (Cons col cols)
  let ?df' = "\<lparr>columns = columns df,
               rows = map (\<lambda>r. r(col := PDatetime (to_datetime fl (r col)))) (rows df)\<rparr>"
  have "set cols \<subseteq> set (columns ?df')" using Cons.prems by simp
  from Cons.IH [OF this] show ?case
    using Cons.prems by (simp add: getitem_def setitem_rows comp_def)
qed

lemma convert_dates_missing:
  "\<not> set cols \<subseteq> set (columns df) \<Longrightarrow>
   \<exists>c. c \<in> set cols \<and> c \<notin> set (columns df) \<and> convert_dates fl cols df = Inl (KeyError c)"
proof (induction cols arbitrary: df)
  case Nil
  then show ?case by simp
next
  case (Cons col cols)
  show ?case
  proof (cases "col \<in> set (columns df)")
    case False
    then show ?thesis by (auto simp: getitem_def)
  next
    case True
    let ?df' = "\<lparr>columns = columns df,
                 rows = map (\<lambda>r. r(col := PDatetime (to_datetime fl (r col)))) (rows df)\<rparr>"
    have "\<not> set cols \<subseteq> set (columns ?df')" using Cons.prems True by auto
    from Cons.IH [OF this] show ?thesis
      using True by (auto simp: getitem_def setitem_rows comp_def)
  qed
qed

lemma serialize_columns_ok:
  "set cols \<subseteq> set (columns df) \<Longrightarrow>
   serialize_columns cols df =
     Inr \<lparr>columns = columns df, rows = map (upd_cols convert_to_serializable cols) (rows df)\<rparr>"
proof (induction cols arbitrary: df)
  case Nil
  then show ?case by simp
next
  case (Cons col cols)
  let ?df' = "\<lparr>columns = columns df,
               rows = map (\<lambda>r. r(col := convert_to_serializable (r col))) (rows df)\<rparr>"
  have "set cols \<subseteq> set (columns ?df')" using Cons.prems by simp
  from Cons.IH [OF this] show ?case
    using Cons.prems by (simp add: getitem_def setitem_rows comp_def)
qed

lemma data_obito_of_datetime: "data_obito_of (PDatetime t) = Inr (obito_val t)"
  by (cases t) (simp_all add: data_obito_of_def obito_val_def notna_def)

lemma series_apply_data_obito:
  "series_apply data_obito_of (map (\<lambda>r. PDatetime (h r)) xs) = Inr (map (\<lambda>r. obito_val (h r)) xs)"
  by (induction xs) (simp_all add: data_obito_of_datetime)

lemma setitem_map:
  "setitem \<lparr>columns = cs, rows = map g xs\<rparr> col (map f xs) =
     \<lparr>columns = (if col \<in> set cs then cs else cs @ [col]),
      rows = map (\<lambda>x. (g x)(col := f x)) xs\<rparr>"
  by (simp add: setitem_def zip_map_map zip_same_conv_map)

lemma process_frame_ok:
  assumes "set date_columns \<subseteq> set (columns df)"
  shows "process_frame fl df =
           Inr (map (\<lambda>r. map (\<lambda>c. (c, out_row fl df r c)) (out_columns df)) (rows df))"
proof -
  let ?r1 = "upd_cols (\<lambda>v. PDatetime (to_datetime fl v)) date_columns"
  let ?df1 = "\<lparr>columns = columns df, rows = map ?r1 (rows df)\<rparr>"
  let ?r2 = "\<lambda>r. if has_geo df then (?r1 r)(''res_coordenadas'' := coordenadas (?r1 r)) else ?r1 r"
  let ?df2 = "\<lparr>columns = geo_columns df, rows = map ?r2 (rows df)\<rparr>"
  let ?df3 = "\<lparr>columns = out_columns df, rows = map (staged_row fl df) (rows df)\<rparr>"
  have s1: "convert_dates fl date_columns df = Inr ?df1"
    using assms by (rule convert_dates_ok)
  have s2: "add_coordenadas ?df1 = ?df2"
    using setitem_rows [of ?df1 "''res_coordenadas''" coordenadas]
    by (auto simp: add_coordenadas_def geo_columns_def has_geo_def apply_rows_def comp_def)
  have dt: "?r2 r ''DTOBITO'' = PDatetime (to_datetime fl (r ''DTOBITO''))" for r
    by (simp add: date_columns_def)
  have in2: "''DTOBITO'' \<in> set (geo_columns df)"
    using assms by (auto simp: geo_columns_def date_columns_def)
  have s3: "add_data_obito ?df2 = Inr ?df3"
  proof -
    have "getitem ?df2 ''DTOBITO'' = Inr (map (\<lambda>r. PDatetime (to_datetime fl (r ''DTOBITO''))) (rows df))"
      using in2 dt by (simp add: getitem_def comp_def del: fun_upd_apply)
    moreover have "setitem ?df2 ''data_obito'' (map (\<lambda>r. obito_val (to_datetime fl (r ''DTOBITO''))) (rows df)) = ?df3"
      by (simp add: setitem_map out_columns_def staged_row_def Let_def)
    ultimately show ?thesis
      using in2 by (simp add: add_data_obito_def series_apply_data_obito)
  qed
  have s4: "serialize_columns (out_columns df) ?df3 =
              Inr \<lparr>columns = out_columns df,
                   rows = map (upd_cols convert_to_serializable (out_columns df))
                            (map (staged_row fl df) (rows df))\<rparr>"
    using serialize_columns_ok [of "out_columns df" ?df3] by simp
  show ?thesis
    by (simp add: process_frame_def s1 s2 s3 s4 to_dict_records_def replace_missing_def out_row_def comp_def)
qed


lemma upd_cols_fixed: "g (r k) = r k \<Longrightarrow> upd_cols g cols r k = r k"
proof (induction cols arbitrary: r)
  case Nil
  then show ?case by simp
next
  case (Cons c cols)
  have "upd_cols g (c # cols) r k = upd_cols g cols (r(c := g (r c))) k"
    by simp
  also have "\<dots> = (r(c := g (r c))) k"
    by (rule Cons.IH) (use Cons.prems in auto)
  also have "\<dots> = r k"
    using Cons.prems by auto
  finally show ?case .
qed

lemma process_frame_missing:
  assumes "\<not> set date_columns \<subseteq> set (columns df)"
  shows "\<exists>c. c \<in> set date_columns \<and> c \<notin> set (columns df) \<and> process_frame fl df = Inl (KeyError c)"
proof -
  from convert_dates_missing [OF assms, of fl] obtain c where
    "c \<in> set date_columns" "c \<notin> set (columns df)" "convert_dates fl date_columns df = Inl (KeyError c)"
    by blast
  then show ?thesis by (auto simp: process_frame_def)
qed

lemma process_csv_opened:
  assumes "open_rb file_path = Some content"
    and "read_csv content (encoding (detect content)) = Inr df"
  shows "process_csv open_rb detect read_csv fl file_path =
           (case process_frame fl df of Inl e \<Rightarrow> Inl (SystemExit 1) | Inr docs \<Rightarrow> Inr docs)"
  using assms by (simp add: process_csv_def process_csv_try_def)

lemmas eval_frame =
  process_frame_def getitem_def setitem_def add_coordenadas_def add_data_obito_def
  data_obito_of_def apply_rows_def to_dict_records_def replace_missing_def frame_of_def
  date_columns_def coordenadas_def notna_def

lemmas eval_dates =
  parse_date_def strptime_dmY_def day_alts_def month_alts_def year_alts_def is_digit_def
  is_digit19_def digit_val_def days_in_month_def in_bounds_def is_leap_def zfill_def
  str_nat.simps digit_char_def str_int_def

subsection \<open>Dates\<close>

text \<open>
  Single cells. Text of eight digits is read as day, month, year. An integer cell has
  lost a leading zero: \<open>1012020\<close> is read as day 10, month 1.
\<close>

lemma to_datetime_cells:
  "to_datetime fl (PStr ''01012020'') = Timestamp 2020 1 1"
  "to_datetime fl (PStr ''99999999'') = NaT"
  "to_datetime fl (PStr ''29022019'') = NaT"
  "to_datetime fl (PInt 1012020) = Timestamp 2020 1 10"
  "to_datetime fl PNaN = NaT"
  by (simp_all add: eval_dates)

text \<open>
  C1. Every date column is parsed with the format day-month-year without separators.
  The text \<open>01012020\<close> becomes the ISO-8601 text \<open>2020-01-01T00:00:00\<close>, in the date
  columns and in \<open>data_obito\<close>. The text \<open>99999999\<close> cannot be parsed and raises
  nothing; \<open>data_obito\<close> is null for it, but the date columns themselves end as the
  text \<open>NaT\<close>, not as null: \<open>NaT\<close> is a \<open>datetime\<close>, so \<open>convert_to_serializable\<close>
  formats it before it asks whether it is missing.
\<close>

theorem date_cells_of_process_frame:
  "process_frame fl frame_dates =
     Inr [[(''DTOBITO'', PStr ''2020-01-01T00:00:00''), (''DTNASC'', PStr ''2020-01-01T00:00:00''),
           (''DTATESTADO'', PStr ''2020-01-01T00:00:00''),
           (''DTCADASTRO'', PStr ''2020-01-01T00:00:00''),
           (''DTRECEBIM'', PStr ''2020-01-01T00:00:00''),
           (''data_obito'', PStr ''2020-01-01T00:00:00'')],
          [(''DTOBITO'', PStr ''NaT''), (''DTNASC'', PStr ''NaT''), (''DTATESTADO'', PStr ''NaT''),
           (''DTCADASTRO'', PStr ''NaT''), (''DTRECEBIM'', PStr ''NaT''),
           (''data_obito'', PNone)]]"
  by (simp add: frame_dates_def eval_frame eval_dates)

subsection \<open>Geo-points\<close>

text \<open>
  C2, as the code has it. In a frame that has the five date columns and both coordinate
  columns, every row gets the field \<open>res_coordenadas\<close>: the structure of latitude and
  longitude when neither cell is missing, and null when one of them is. Nothing asks
  whether the cells are numbers.
\<close>

theorem geo_point_iff_both_present:
  assumes "set date_columns \<subseteq> set (columns df)"
    and "''res_LATITUDE'' \<in> set (columns df)"
    and "''res_LONGITUDE'' \<in> set (columns df)"
    and "i < length (rows df)"
  shows "\<exists>docs. process_frame fl df = Inr docs \<and> length docs = length (rows df) \<and>
           map_of (docs ! i) ''res_coordenadas'' =
             Some (if isna ((rows df ! i) ''res_LATITUDE'') \<or> isna ((rows df ! i) ''res_LONGITUDE'')
                   then PNone
                   else PDict [(''lat'', (rows df ! i) ''res_LATITUDE''),
                               (''lon'', (rows df ! i) ''res_LONGITUDE'')])"
proof -
  let ?r = "rows df ! i"
  let ?r1 = "upd_cols (\<lambda>v. PDatetime (to_datetime fl v)) date_columns ?r"
  let ?geo = "if isna (?r ''res_LATITUDE'') \<or> isna (?r ''res_LONGITUDE'') then PNone
              else PDict [(''lat'', ?r ''res_LATITUDE''), (''lon'', ?r ''res_LONGITUDE'')]"
  have geo: "has_geo df"
    using assms(2,3) by (simp add: has_geo_def)
  have "?r1 ''res_LATITUDE'' = ?r ''res_LATITUDE''" "?r1 ''res_LONGITUDE'' = ?r ''res_LONGITUDE''"
    by (simp_all add: upd_cols_notin date_columns_def)
  then have coord: "coordenadas ?r1 = ?geo"
    by (simp add: coordenadas_def notna_def)
  have staged: "staged_row fl df ?r ''res_coordenadas'' = ?geo"
    using geo coord by (simp add: staged_row_def Let_def)
  have "convert_to_serializable ?geo = ?geo"
    by simp
  then have "upd_cols convert_to_serializable (out_columns df) (staged_row fl df ?r) ''res_coordenadas'' = ?geo"
    using upd_cols_fixed [of convert_to_serializable "staged_row fl df ?r" "''res_coordenadas''"]
      staged by simp
  then have cell: "out_row fl df ?r ''res_coordenadas'' = ?geo"
    by (simp add: out_row_def)
  have label: "''res_coordenadas'' \<in> set (out_columns df)"
    using geo by (simp add: out_columns_def geo_columns_def)
  let ?docs = "map (\<lambda>r. map (\<lambda>c. (c, out_row fl df r c)) (out_columns df)) (rows df)"
  have "map_of (?docs ! i) ''res_coordenadas'' = Some ?geo"
    using assms(4) label cell by (simp add: map_of_map_restrict)
  then show ?thesis
    using process_frame_ok [OF assms(1), of fl] by simp
qed

theorem geo_point_iff_both_present_witness:
  "\<exists>docs. process_frame (\<lambda>x. NaT) frame_geo = Inr docs \<and> length docs = 2 \<and>
     map_of (docs ! 0) ''res_coordenadas'' =
       Some (PDict [(''lat'', PFloat (-23.55)), (''lon'', PFloat (-46.63))]) \<and>
     map_of (docs ! 1) ''res_coordenadas'' = Some PNone"
proof -
  have cols: "set date_columns \<subseteq> set (columns frame_geo)"
    "''res_LATITUDE'' \<in> set (columns frame_geo)" "''res_LONGITUDE'' \<in> set (columns frame_geo)"
    by (simp_all add: frame_geo_def frame_of_def date_columns_def)
  have len: "length (rows frame_geo) = 2"
    by (simp add: frame_geo_def frame_of_def)
  from geo_point_iff_both_present [OF cols, of 0 "\<lambda>x. NaT"] len
  obtain docs where d0: "process_frame (\<lambda>x. NaT) frame_geo = Inr docs" "length docs = 2"
    "map_of (docs ! 0) ''res_coordenadas'' =
       Some (PDict [(''lat'', PFloat (-23.55)), (''lon'', PFloat (-46.63))])"
    by (auto simp: frame_geo_def frame_of_def date_columns_def)
  from geo_point_iff_both_present [OF cols, of 1 "\<lambda>x. NaT"] len d0(1)
  have "map_of (docs ! 1) ''res_coordenadas'' = Some PNone"
    by (auto simp: frame_geo_def frame_of_def date_columns_def)
  with d0 show ?thesis by blast
qed

text \<open>
  The claim as written asks for numeric values. A latitude that is text and a longitude
  that is a number still give a structure.
\<close>

theorem geo_point_of_text_latitude:
  "process_frame (\<lambda>x. NaT) frame_geo_text =
     Inr [[(''DTOBITO'', PStr ''2020-01-01T00:00:00''), (''DTNASC'', PStr ''1950-01-01T00:00:00''),
           (''DTATESTADO'', PStr ''2020-01-01T00:00:00''),
           (''DTCADASTRO'', PStr ''2020-01-01T00:00:00''),
           (''DTRECEBIM'', PStr ''2020-01-01T00:00:00''),
           (''res_LATITUDE'', PStr ''-23,55''), (''res_LONGITUDE'', PFloat (-46.63)),
           (''res_coordenadas'', PDict [(''lat'', PStr ''-23,55''), (''lon'', PFloat (-46.63))]),
           (''data_obito'', PStr ''2020-01-01T00:00:00'')]]"
  by (simp add: frame_geo_text_def eval_frame eval_dates)

subsection \<open>Missing values\<close>

text \<open>
  C3. After the normalisation no value that stands for a missing one is left: every
  missing value is null. The empty age of the second row is null, as the claim says. The
  empty dates of birth are not: they are read as \<open>NaN\<close>, parsed to \<open>NaT\<close>, and leave
  as the text \<open>NaT\<close>.
\<close>

theorem missing_date_leaves_as_text:
  "process_frame fl frame_gaps =
     Inr [[(''DTOBITO'', PStr ''2019-03-15T00:00:00''), (''DTNASC'', PStr ''NaT''),
           (''DTATESTADO'', PStr ''2019-03-16T00:00:00''),
           (''DTCADASTRO'', PStr ''2019-03-20T00:00:00''),
           (''DTRECEBIM'', PStr ''2019-03-21T00:00:00''), (''IDADE'', PFloat 465),
           (''data_obito'', PStr ''2019-03-15T00:00:00'')],
          [(''DTOBITO'', PStr ''2019-04-12T00:00:00''), (''DTNASC'', PStr ''NaT''),
           (''DTATESTADO'', PStr ''2019-04-12T00:00:00''),
           (''DTCADASTRO'', PStr ''2019-04-15T00:00:00''),
           (''DTRECEBIM'', PStr ''2019-04-16T00:00:00''), (''IDADE'', PNone),
           (''data_obito'', PStr ''2019-04-12T00:00:00'')]]"
  by (simp add: frame_gaps_def eval_frame eval_dates)

subsection \<open>One document for each row\<close>

lemma dict_reader_length:
  "length (dict_reader (fieldnames # lines)) = length (filter (\<lambda>row. row \<noteq> []) lines)"
  by (simp add: dict_reader_def)

text \<open>
  C8, as the code has it. On a file that is opened and read into a frame, \<open>process_csv\<close>
  returns documents exactly when the frame has the five date columns, and then one
  document for each row, in the order of the rows, each built from its own row alone;
  when a date column is missing it returns no document and ends the process with exit
  status 1. \<open>parse_csv_file\<close> returns one record for each row after the header that is
  not a blank line, in order.
\<close>

theorem one_document_per_row:
  assumes "open_rb file_path = Some content"
    and "read_csv content (encoding (detect content)) = Inr df"
    and "open_csv filepath = Some (fieldnames # lines)"
  shows "(case process_csv open_rb detect read_csv fl file_path of
            Inr docs \<Rightarrow>
              set date_columns \<subseteq> set (columns df) \<and> length docs = length (rows df) \<and>
              docs = map (\<lambda>r. map (\<lambda>c. (c, out_row fl df r c)) (out_columns df)) (rows df)
          | Inl e \<Rightarrow> e = SystemExit 1 \<and> \<not> set date_columns \<subseteq> set (columns df)) \<and>
         (\<exists>records. parse_csv_file open_csv filepath = Inr records \<and>
            length records = length (filter (\<lambda>row. row \<noteq> []) lines) \<and>
            records = map (dict_reader_row fieldnames) (filter (\<lambda>row. row \<noteq> []) lines))"
proof -
  have opened: "process_csv open_rb detect read_csv fl file_path =
      (case process_frame fl df of Inl e \<Rightarrow> Inl (SystemExit 1) | Inr docs \<Rightarrow> Inr docs)"
    using assms(1,2) by (rule process_csv_opened)
  have "case process_csv open_rb detect read_csv fl file_path of
          Inr docs \<Rightarrow>
            set date_columns \<subseteq> set (columns df) \<and> length docs = length (rows df) \<and>
            docs = map (\<lambda>r. map (\<lambda>c. (c, out_row fl df r c)) (out_columns df)) (rows df)
        | Inl e \<Rightarrow> e = SystemExit 1 \<and> \<not> set date_columns \<subseteq> set (columns df)"
  proof (cases "set date_columns \<subseteq> set (columns df)")
    case True
    from process_frame_ok [OF True, of fl] show ?thesis
      using True opened by simp
  next
    case False
    from process_frame_missing [OF False, of fl] obtain c where
      "process_frame fl df = Inl (KeyError c)" by blast
    then show ?thesis
      using False opened by simp
  qed
  moreover have "\<exists>records. parse_csv_file open_csv filepath = Inr records \<and>
      length records = length (filter (\<lambda>row. row \<noteq> []) lines) \<and>
      records = map (dict_reader_row fieldnames) (filter (\<lambda>row. row \<noteq> []) lines)"
    using assms(3) by (simp add: parse_csv_file_def dict_reader_def)
  ultimately show ?thesis by blast
qed

theorem one_document_per_row_witness:
  "(case process_csv sample_open sample_detect_utf8 sample_read_csv (\<lambda>x. NaT) ''dados_obitos.csv'' of
      Inr docs \<Rightarrow> length docs = 2
    | Inl e \<Rightarrow> False) \<and>
   (\<exists>records. parse_csv_file sample_open_csv ''c2228.csv'' = Inr records \<and> length records = 2 \<and>
      records = [[(Some ''COD'', CsvField ''35''), (Some ''NOME'', CsvField ''SP'')],
                 [(Some ''COD'', CsvField ''41''), (Some ''NOME'', CsvField ''PR'')]])"
proof -
  have o: "sample_open ''dados_obitos.csv'' = Some ''DTOBITO,...''"
    by (simp add: sample_open_def)
  have r: "sample_read_csv ''DTOBITO,...'' (encoding (sample_detect_utf8 ''DTOBITO,...'')) = Inr frame_dates"
    by (simp add: sample_read_csv_def sample_detect_utf8_def)
  have c: "sample_open_csv ''c2228.csv'' = Some ([''COD'', ''NOME''] # [[''35'', ''SP''], [], [''41'', ''PR'']])"
    by (simp add: sample_open_csv_def)
  have cols: "set date_columns \<subseteq> set (columns frame_dates)" "length (rows frame_dates) = 2"
    by (simp_all add: frame_dates_def frame_of_def)
  have "(case process_csv sample_open sample_detect_utf8 sample_read_csv (\<lambda>x. NaT) ''dados_obitos.csv'' of
           Inr docs \<Rightarrow>
             set date_columns \<subseteq> set (columns frame_dates) \<and>
             length docs = length (rows frame_dates) \<and>
             docs = map (\<lambda>r. map (\<lambda>c. (c, out_row (\<lambda>x. NaT) frame_dates r c)) (out_columns frame_dates))
                      (rows frame_dates)
         | Inl e \<Rightarrow> e = SystemExit 1 \<and> \<not> set date_columns \<subseteq> set (columns frame_dates)) \<and>
        (\<exists>records. parse_csv_file sample_open_csv ''c2228.csv'' = Inr records \<and>
           length records = length (filter (\<lambda>row. row \<noteq> []) [[''35'', ''SP''], [], [''41'', ''PR'']]) \<and>
           records = map (dict_reader_row [''COD'', ''NOME''])
                       (filter (\<lambda>row. row \<noteq> []) [[''35'', ''SP''], [], [''41'', ''PR'']]))"
    using o r c by (rule one_document_per_row)
  with cols show ?thesis
    by (auto split: sum.splits simp: dict_reader_row_def dict_of_def)
qed

text \<open>
  The claim as written holds for every input file. The file here is read into a frame
  of one row that has no column \<open>DTRECEBIM\<close>: one row is read and no document is
  produced.
\<close>

theorem row_without_document:
  "sample_open ''dados_obitos.csv'' = Some ''DTOBITO,...'' \<and>
   sample_read_short ''DTOBITO,...'' (encoding (sample_detect_utf8 ''DTOBITO,...'')) =
     Inr frame_no_dtrecebim \<and>
   length (rows frame_no_dtrecebim) = 1 \<and>
   process_csv sample_open sample_detect_utf8 sample_read_short (\<lambda>x. NaT) ''dados_obitos.csv'' =
     Inl (SystemExit 1)"
  by (simp add: process_csv_def process_csv_try_def sample_open_def sample_detect_utf8_def
      sample_read_short_def frame_no_dtrecebim_def eval_frame)

subsection \<open>A missing date column\<close>

text \<open>
  C10. The five date columns are read without a test. When the frame lacks one of them,
  the body raises \<open>KeyError\<close> for a date column, no document is produced, and the handler
  ends the process with exit status 1.
\<close>

theorem missing_date_column_exits:
  assumes "open_rb file_path = Some content"
    and "read_csv content (encoding (detect content)) = Inr df"
    and "c \<in> set date_columns"
    and "c \<notin> set (columns df)"
  shows "(\<exists>c'. c' \<in> set date_columns \<and> c' \<notin> set (columns df) \<and>
            process_frame fl df = Inl (KeyError c')) \<and>
         process_csv open_rb detect read_csv fl file_path = Inl (SystemExit 1)"
proof -
  have "\<not> set date_columns \<subseteq> set (columns df)"
    using assms(3,4) by blast
  from process_frame_missing [OF this, of fl] obtain c' where
    c': "c' \<in> set date_columns" "c' \<notin> set (columns df)" "process_frame fl df = Inl (KeyError c')"
    by blast
  moreover have "process_csv open_rb detect read_csv fl file_path =
      (case process_frame fl df of Inl e \<Rightarrow> Inl (SystemExit 1) | Inr docs \<Rightarrow> Inr docs)"
    using assms(1,2) by (rule process_csv_opened)
  ultimately have "process_csv open_rb detect read_csv fl file_path = Inl (SystemExit 1)"
    by simp
  with c' show ?thesis by blast
qed

theorem missing_date_column_exits_witness:
  "process_frame (\<lambda>x. NaT) frame_no_dtrecebim = Inl (KeyError ''DTRECEBIM'') \<and>
   process_csv sample_open sample_detect_utf8 sample_read_short (\<lambda>x. NaT) ''dados_obitos.csv'' =
     Inl (SystemExit 1)"
proof -
  have o: "sample_open ''dados_obitos.csv'' = Some ''DTOBITO,...''"
    by (simp add: sample_open_def)
  have r: "sample_read_short ''DTOBITO,...'' (encoding (sample_detect_utf8 ''DTOBITO,...'')) =
             Inr frame_no_dtrecebim"
    by (simp add: sample_read_short_def sample_detect_utf8_def)
  have c: "''DTRECEBIM'' \<in> set date_columns" "''DTRECEBIM'' \<notin> set (columns frame_no_dtrecebim)"
    by (simp_all add: date_columns_def frame_no_dtrecebim_def frame_of_def)
  have "process_frame (\<lambda>x. NaT) frame_no_dtrecebim = Inl (KeyError ''DTRECEBIM'')"
    by (simp add: frame_no_dtrecebim_def eval_frame eval_dates)
  moreover have "(\<exists>c'. c' \<in> set date_columns \<and> c' \<notin> set (columns frame_no_dtrecebim) \<and>
        process_frame (\<lambda>x. NaT) frame_no_dtrecebim = Inl (KeyError c')) \<and>
      process_csv sample_open sample_detect_utf8 sample_read_short (\<lambda>x. NaT) ''dados_obitos.csv'' =
        Inl (SystemExit 1)"
    using o r c by (rule missing_date_column_exits)
  ultimately show ?thesis
    by simp
qed

section \<open>Properties of the loaders\<close>

subsection \<open>Reading the file\<close>

text \<open>
  C7, as the code has it. Detection has no fallback. The reader is given the detector's
  \<open>encoding\<close> entry as it is, whatever the confidence, and no second encoding is tried:
  an error raised by the reader with that encoding ends the process with exit status 1;
  two detectors that name the same encoding give the same result, whatever their
  confidence; and what the reader would do with any other encoding does not matter.
\<close>

theorem detected_encoding_is_final:
  assumes "open_rb file_path = Some content"
  shows "(read_csv content (encoding (detect content)) = Inl e \<longrightarrow>
            process_csv open_rb detect read_csv fl file_path = Inl (SystemExit 1)) \<and>
         (encoding (detect' content) = encoding (detect content) \<longrightarrow>
            process_csv open_rb detect' read_csv fl file_path =
            process_csv open_rb detect read_csv fl file_path) \<and>
         (read_csv' content (encoding (detect content)) = read_csv content (encoding (detect content)) \<longrightarrow>
            process_csv open_rb detect read_csv' fl file_path =
            process_csv open_rb detect read_csv fl file_path)"
  using assms by (simp add: process_csv_def process_csv_try_def)

theorem detected_encoding_is_final_witness:
  "process_csv sample_open sample_detect sample_read_csv (\<lambda>x. NaT) ''dados_obitos.csv'' =
     Inl (SystemExit 1) \<and>
   process_csv sample_open (\<lambda>c. \<lparr>encoding = Some ''Windows-1252'', confidence = 0.99\<rparr>)
       sample_read_csv (\<lambda>x. NaT) ''dados_obitos.csv'' =
     process_csv sample_open sample_detect sample_read_csv (\<lambda>x. NaT) ''dados_obitos.csv'' \<and>
   process_csv sample_open sample_detect (\<lambda>c enc. Inl UnicodeDecodeError) (\<lambda>x. NaT)
       ''dados_obitos.csv'' =
     process_csv sample_open sample_detect sample_read_csv (\<lambda>x. NaT) ''dados_obitos.csv''"
proof -
  have o: "sample_open ''dados_obitos.csv'' = Some ''DTOBITO,...''"
    by (simp add: sample_open_def)
  have "(sample_read_csv ''DTOBITO,...'' (encoding (sample_detect ''DTOBITO,...'')) =
           Inl UnicodeDecodeError \<longrightarrow>
         process_csv sample_open sample_detect sample_read_csv (\<lambda>x. NaT) ''dados_obitos.csv'' =
           Inl (SystemExit 1)) \<and>
        (encoding ((\<lambda>c. \<lparr>encoding = Some ''Windows-1252'', confidence = 0.99\<rparr>) ''DTOBITO,...'') =
           encoding (sample_detect ''DTOBITO,...'') \<longrightarrow>
         process_csv sample_open (\<lambda>c. \<lparr>encoding = Some ''Windows-1252'', confidence = 0.99\<rparr>)
             sample_read_csv (\<lambda>x. NaT) ''dados_obitos.csv'' =
           process_csv sample_open sample_detect sample_read_csv (\<lambda>x. NaT) ''dados_obitos.csv'') \<and>
        ((\<lambda>c enc. Inl UnicodeDecodeError) ''DTOBITO,...'' (encoding (sample_detect ''DTOBITO,...'')) =
           sample_read_csv ''DTOBITO,...'' (encoding (sample_detect ''DTOBITO,...'')) \<longrightarrow>
         process_csv sample_open sample_detect (\<lambda>c enc. Inl UnicodeDecodeError) (\<lambda>x. NaT)
             ''dados_obitos.csv'' =
           process_csv sample_open sample_detect sample_read_csv (\<lambda>x. NaT) ''dados_obitos.csv'')"
    using o by (rule detected_encoding_is_final)
  then show ?thesis
    by (simp add: sample_detect_def sample_read_csv_def)
qed

text \<open>
  The claim as written promises that detection is never fatal. Here the detector names
  \<open>Windows-1252\<close> with confidence 0.3, the reader cannot decode the file with it, and the
  process exits, although the same reader accepts the file as UTF-8.
\<close>

theorem wrong_detection_is_fatal:
  "sample_detect ''DTOBITO,...'' = \<lparr>encoding = Some ''Windows-1252'', confidence = 0.3\<rparr> \<and>
   sample_read_csv ''DTOBITO,...'' (Some ''utf-8'') = Inr frame_dates \<and>
   process_csv sample_open sample_detect sample_read_csv (\<lambda>x. NaT) ''dados_obitos.csv'' =
     Inl (SystemExit 1)"
  by (simp add: process_csv_def process_csv_try_def sample_open_def sample_detect_def
      sample_read_csv_def)

subsection \<open>Creating the index\<close>

lemma update_fresh:
  "k \<notin> fst ` set al \<Longrightarrow> AList.update k v al = al @ [(k, v)]"
  by (induction al) auto

lemma fold_update_fresh:
  "distinct ks \<Longrightarrow> set ks \<inter> fst ` set al = {} \<Longrightarrow>
   fold (\<lambda>k d. AList.update k v d) ks al = al @ map (\<lambda>k. (k, v)) ks"
proof (induction ks arbitrary: al)
  case Nil
  then show ?case by simp
next
  case (Cons k ks)
  have fresh: "k \<notin> fst ` set al"
    using Cons.prems(2) by auto
  have "set ks \<inter> fst ` set (al @ [(k, v)]) = {}"
    using Cons.prems by auto
  with Cons.IH [of "al @ [(k, v)]"] Cons.prems(1) show ?case
    by (simp add: update_fresh [OF fresh])
qed

lemma delete_if_exists_ok: "delete_if_exists es index_name = Inr (es(index_name := None))"
  by (auto simp: delete_if_exists_def indices_exists_def indices_delete_def)

lemma create_after_delete:
  "indices_create (es(index_name := None)) index_name body = Inr (es(index_name \<mapsto> body))"
  by (simp add: indices_create_def)

text \<open>
  C5. Creating an index never fails on a name that is taken: the old index is deleted,
  after the existence test, and the new one created. After two calls with the same name
  the engine has the indices it had before and, under that name, one index with the
  mapping of the second call.
\<close>

theorem create_index_twice:
  "(\<exists>es1. create_index_dadospop es index_name sample1 = Inr es1 \<and>
      create_index_dadospop es1 index_name sample2 =
        Inr (es(index_name \<mapsto>
               PDict [(''mappings'', PDict [(''properties'', PDict (properties_loop sample2))])]))) \<and>
   (\<exists>es1. create_index es index_name = Inr es1 \<and>
      create_index es1 index_name = Inr (es(index_name \<mapsto> obitos_mappings)))"
  by (simp add: create_index_dadospop_def create_index_def delete_if_exists_ok create_after_delete)

theorem create_index_twice_witness:
  "(\<exists>es1. create_index_dadospop [''dados_csv'' \<mapsto> PNone] ''dados_csv'' [(''a'', ''1'')] = Inr es1 \<and>
      create_index_dadospop es1 ''dados_csv'' [(''b'', ''2'')] =
        Inr [''dados_csv'' \<mapsto>
               PDict [(''mappings'', PDict [(''properties'', PDict [(''b'', text_keyword_field)])])]]) \<and>
   (\<exists>es1. create_index [''dados_csv'' \<mapsto> PNone] ''obitos'' = Inr es1 \<and>
      create_index es1 ''obitos'' = Inr [''dados_csv'' \<mapsto> PNone, ''obitos'' \<mapsto> obitos_mappings])"
  using create_index_twice [of "[''dados_csv'' \<mapsto> PNone]" "''dados_csv''" "[(''a'', ''1'')]" "[(''b'', ''2'')]"]
    create_index_twice [of "[''dados_csv'' \<mapsto> PNone]" "''obitos''" "[]::(string \<times> string) list"
      "[]::(string \<times> string) list"]
  by (simp add: properties_loop_def dict_keys_def)

text \<open>
  C9. For a sample record (a dictionary: its keys are distinct) the mapping built has, for
  every key of the record and in the same order, the type \<open>text\<close> with a sub-field
  \<open>keyword\<close> of type \<open>keyword\<close> and \<open>ignore_above\<close> 256, and nothing else; the loop of
  \<open>dadospop.py\<close> and the comprehension of \<open>indexador_streamlit.py\<close> build the same; the
  index is created with it; and the mapping depends on the keys of the sample only.
\<close>

theorem dynamic_mapping_of_sample:
  assumes "distinct (dict_keys sample_record)"
  shows "properties_loop sample_record =
           map (\<lambda>key. (key, PDict [(''type'', PStr ''text''),
                                     (''fields'', PDict [(''keyword'',
                                                          PDict [(''type'', PStr ''keyword''),
                                                                 (''ignore_above'', PInt 256)])])]))
               (dict_keys sample_record) \<and>
         properties_comprehension sample_record = properties_loop sample_record \<and>
         create_index_dadospop es index_name sample_record =
           Inr (es(index_name \<mapsto>
                  PDict [(''mappings'', PDict [(''properties'', PDict (properties_loop sample_record))])])) \<and>
         create_index_streamlit es index_name sample_record =
           Inr (es(index_name \<mapsto>
                  PDict [(''mappings'', PDict [(''properties'', PDict (properties_loop sample_record))])])) \<and>
         (dict_keys other = dict_keys sample_record \<longrightarrow>
            properties_loop other = properties_loop sample_record)"
proof -
  have "properties_loop sample_record = map (\<lambda>key. (key, text_keyword_field)) (dict_keys sample_record)"
    using fold_update_fresh [OF assms, of "[]" text_keyword_field]
    by (simp add: properties_loop_def)
  then show ?thesis
    by (simp add: text_keyword_field_def properties_comprehension_def properties_loop_def
        create_index_dadospop_def create_index_streamlit_def delete_if_exists_ok create_after_delete)
qed

theorem dynamic_mapping_of_sample_witness:
  "properties_loop [(''COD'', ''35''), (''NOME'', ''SP'')] =
     [(''COD'', PDict [(''type'', PStr ''text''),
                       (''fields'', PDict [(''keyword'', PDict [(''type'', PStr ''keyword''),
                                                                (''ignore_above'', PInt 256)])])]),
      (''NOME'', PDict [(''type'', PStr ''text''),
                        (''fields'', PDict [(''keyword'', PDict [(''type'', PStr ''keyword''),
                                                                 (''ignore_above'', PInt 256)])])])] \<and>
   properties_loop [(''COD'', ''41''), (''NOME'', ''PR'')] =
     properties_loop [(''COD'', ''35''), (''NOME'', ''SP'')]"
  using dynamic_mapping_of_sample [where sample_record = "[(''COD'', ''35''), (''NOME'', ''SP'')]"
      and other = "[(''COD'', ''41''), (''NOME'', ''PR'')]" and es = Map.empty
      and index_name = "''dados_csv''"]
  by (simp add: dict_keys_def)

subsection \<open>The outcome of a bulk submission\<close>

lemma concat_chunker: "concat (chunker n xs) = xs"
proof (induction n xs rule: chunker.induct)
  case (1 n xs)
  show ?case
  proof (cases "xs = [] \<or> n = 0")
    case True
    then show ?thesis by (auto simp: chunker.simps [of n xs])
  next
    case False
    with "1.IH" have "concat (chunker n (drop n xs)) = drop n xs" by simp
    with False show ?thesis by (simp add: chunker.simps [of n xs])
  qed
qed

lemma streaming_bulk_cases:
  "streaming_bulk send verdict chunks =
     (if list_all send chunks then Inr (map verdict (concat chunks)) else Inl TransportError)"
  by (induction chunks) auto

lemma bulk_loop_count:
  "fst (bulk_loop items acc) + length (snd (bulk_loop items acc)) =
     fst acc + length (snd acc) + length items"
  by (induction items acc rule: bulk_loop.induct) auto

text \<open>
  C4. A bulk submission either raises, and then only because a batch could not be
  delivered, or returns a success count and a list of failures whose sizes add up to the
  number of documents submitted, whatever the batch size.
\<close>

theorem bulk_outcome_adds_up:
  "case bulk send verdict chunk_size actions of
     Inr (success, errors) \<Rightarrow>
       list_all send (chunker chunk_size actions) \<and> success + length errors = length actions
   | Inl e \<Rightarrow> e = TransportError \<and> \<not> list_all send (chunker chunk_size actions)"
proof (cases "list_all send (chunker chunk_size actions)")
  case True
  have "fst (bulk_loop (map verdict actions) (0, [])) + length (snd (bulk_loop (map verdict actions) (0, []))) =
          length actions"
    using bulk_loop_count [of "map verdict actions" "(0, [])"] by simp
  with True show ?thesis
    by (cases "bulk_loop (map verdict actions) (0, [])")
      (simp add: bulk_def streaming_bulk_cases concat_chunker)
next
  case False
  then show ?thesis
    by (simp add: bulk_def streaming_bulk_cases)
qed

theorem bulk_outcome_adds_up_witness:
  "bulk (\<lambda>c. True) sample_verdict 2
     [(''obitos'', []), (''obitos'', [(''IDADE'', PInt 3)]), (''obitos'', [])] =
     Inr (1, [''mapper_parsing_exception'', ''mapper_parsing_exception'']) \<and>
   1 + length [''mapper_parsing_exception'', ''mapper_parsing_exception''] =
     length [(''obitos'', []), (''obitos'', [(''IDADE'', PInt 3)]), (''obitos'', [])::action]"
proof -
  have "bulk (\<lambda>c. True) sample_verdict 2
          [(''obitos'', []), (''obitos'', [(''IDADE'', PInt 3)]), (''obitos'', [])] =
        Inr (1, [''mapper_parsing_exception'', ''mapper_parsing_exception''])"
    by (simp add: bulk_def chunker.simps sample_verdict_def)
  with bulk_outcome_adds_up [where send = "\<lambda>c. True" and verdict = sample_verdict and chunk_size = 2
      and actions = "[(''obitos'', []), (''obitos'', [(''IDADE'', PInt 3)]), (''obitos'', [])]"]
  show ?thesis by simp
qed

subsection \<open>The file of failures\<close>

lemma bulk_reject_all:
  "bulk (\<lambda>c. True) reject_all 500 [(index_name, d)] = Inr (0, [''rejected in '' @ index_name])"
  by (simp add: bulk_def chunker.simps reject_all_def)

text \<open>
  C6. A failure list that is not empty is written to the file
  \<open>failed_docs_<index>.json\<close>, so that runs on different indices keep their failures
  apart. \<open>index_csv_data\<close> of \<open>dadospop.py\<close> does so. \<open>index_data\<close> of
  \<open>index_elastic.py\<close> writes to \<open>failed_docs.json\<close> for every index: after a run on
  \<open>obitos\<close> and a run on \<open>estados\<close> the file holds the failures of \<open>estados\<close> only.
\<close>

theorem failure_file_of_index_data:
  "files (index_data (\<lambda>c. True) reject_all ''obitos'' [[(''IDADE'', PInt 3)]]
            \<lparr>files = Map.empty, logged = []\<rparr>) ''failed_docs.json'' = Some [''rejected in obitos''] \<and>
   files (index_data (\<lambda>c. True) reject_all ''obitos'' [[(''IDADE'', PInt 3)]]
            \<lparr>files = Map.empty, logged = []\<rparr>) ''failed_docs_obitos.json'' = None \<and>
   files (index_data (\<lambda>c. True) reject_all ''estados'' [[(''cod'', PStr ''35'')]]
            (index_data (\<lambda>c. True) reject_all ''obitos'' [[(''IDADE'', PInt 3)]]
               \<lparr>files = Map.empty, logged = []\<rparr>)) ''failed_docs.json'' = Some [''rejected in estados''] \<and>
   files (index_csv_data (\<lambda>c. True) reject_all ''obitos'' [[(''IDADE'', PInt 3)]]
            \<lparr>files = Map.empty, logged = []\<rparr>) ''failed_docs_obitos.json'' = Some [''rejected in obitos'']"
  by (simp add: index_data_def index_csv_data_def bulk_reject_all)

end
